theory Spec2Isabelle
  imports Main
begin

section \<open>JavaScript values\<close>

text \<open>
  \<^verbatim>\<open>PostgresAgent\<close> (\<^verbatim>\<open>src/packages/agents/postgres/index.ts\<close>) takes its plans as
  \<^verbatim>\<open>any\<close>, so the model works on JavaScript values. An object is the list of its own
  enumerable properties in enumeration order (each key once). Numbers are the integers
  that JavaScript prints in plain decimal; strings are ASCII. \<open>JFunction n\<close> is the
  built-in function named \<open>n\<close>; such a value is never part of a plan, it only comes
  out of a property lookup that reaches \<^verbatim>\<open>Object.prototype\<close>.
\<close>

datatype jsval =
    JUndefined
  | JNull
  | JBool bool
  | JNum int
  | JStr string
  | JArr "jsval list"
  | JObj "(string \<times> jsval) list"
  | JFunction string

type_synonym obj = "(string \<times> jsval) list"

text \<open>
  \<^verbatim>\<open>o.k\<close> on a plan or on a row of a query result: the own property, or \<^verbatim>\<open>undefined\<close>
  when there is none. (The names read this way are \<open>operation\<close>, \<open>table\<close>, \<open>fields\<close>,
  \<open>where\<close>, \<open>values\<close>, \<open>table_name\<close>, \<open>column_name\<close> and \<open>data_type\<close>; none of them
  is inherited from \<^verbatim>\<open>Object.prototype\<close>.)
\<close>

definition own_property :: "obj \<Rightarrow> string \<Rightarrow> jsval" where
  "own_property ob k = (case map_of ob k of Some v \<Rightarrow> v | None \<Rightarrow> JUndefined)"

text \<open>ToBoolean: what \<^verbatim>\<open>!x\<close> and \<^verbatim>\<open>x || y\<close> test.\<close>

fun truthy :: "jsval \<Rightarrow> bool" where
  "truthy JUndefined = False"
| "truthy JNull = False"
| "truthy (JBool b) = b"
| "truthy (JNum n) = (n \<noteq> 0)"
| "truthy (JStr s) = (s \<noteq> [])"
| "truthy (JArr xs) = True"
| "truthy (JObj kvs) = True"
| "truthy (JFunction n) = True"

definition digit :: "nat \<Rightarrow> char" where
  "digit n = ''0123456789'' ! n"

fun show_nat :: "nat \<Rightarrow> string" where
  "show_nat n = (if n < 10 then [digit n] else show_nat (n div 10) @ [digit (n mod 10)])"

declare show_nat.simps [simp del]

text \<open>\<^verbatim>\<open>xs.join(sep)\<close> on strings.\<close>

fun join :: "string \<Rightarrow> string list \<Rightarrow> string" where
  "join sep [] = []"
| "join sep [x] = x"
| "join sep (x # y # ys) = x @ sep @ join sep (y # ys)"

text \<open>
  ToString, as a template literal applies it. An array prints its elements joined by a
  comma, with \<^verbatim>\<open>undefined\<close> and \<^verbatim>\<open>null\<close> elements printed as the empty string.
\<close>

fun to_string :: "jsval \<Rightarrow> string" where
  "to_string JUndefined = ''undefined''"
| "to_string JNull = ''null''"
| "to_string (JBool b) = (if b then ''true'' else ''false'')"
| "to_string (JNum n) = (if n < 0 then ''-'' @ show_nat (nat (- n)) else show_nat (nat n))"
| "to_string (JStr s) = s"
| "to_string (JArr xs) =
     join '','' (map (\<lambda>v. if v = JUndefined \<or> v = JNull then [] else to_string v) xs)"
| "to_string (JObj kvs) = ''[object Object]''"
| "to_string (JFunction n) = ''function '' @ n @ ''() { [native code] }''"

text \<open>\<^verbatim>\<open>xs.join(sep)\<close> on an array of any values.\<close>

definition array_join :: "string \<Rightarrow> jsval list \<Rightarrow> string" where
  "array_join sep xs =
     join sep (map (\<lambda>v. if v = JUndefined \<or> v = JNull then [] else to_string v) xs)"

definition toLowerCase_char :: "char \<Rightarrow> char" where
  "toLowerCase_char c =
     (case map_of (zip ''ABCDEFGHIJKLMNOPQRSTUVWXYZ'' ''abcdefghijklmnopqrstuvwxyz'') c of
        Some l \<Rightarrow> l
      | None \<Rightarrow> c)"

datatype error =
    TypeError
  | Error string
  | DriverError string

text \<open>
  \<^verbatim>\<open>v.toLowerCase()\<close>: only a string has the method; on \<^verbatim>\<open>undefined\<close> the property
  read throws, on any other value the call of \<^verbatim>\<open>undefined\<close> throws.
\<close>

fun toLowerCase :: "jsval \<Rightarrow> error + string" where
  "toLowerCase (JStr s) = Inr (map toLowerCase_char s)"
| "toLowerCase v = Inl TypeError"

text \<open>\<^verbatim>\<open>Object.keys(v)\<close> and \<^verbatim>\<open>Object.values(v)\<close>.\<close>

fun object_keys :: "jsval \<Rightarrow> error + string list" where
  "object_keys JUndefined = Inl TypeError"
| "object_keys JNull = Inl TypeError"
| "object_keys (JObj kvs) = Inr (map fst kvs)"
| "object_keys (JArr xs) = Inr (map show_nat [0..<length xs])"
| "object_keys (JStr s) = Inr (map show_nat [0..<length s])"
| "object_keys v = Inr []"

fun object_values :: "jsval \<Rightarrow> error + jsval list" where
  "object_values JUndefined = Inl TypeError"
| "object_values JNull = Inl TypeError"
| "object_values (JObj kvs) = Inr (map snd kvs)"
| "object_values (JArr xs) = Inr xs"
| "object_values (JStr s) = Inr (map (\<lambda>c. JStr [c]) s)"
| "object_values v = Inr []"

text \<open>
  Objects the agent builds itself (\<^verbatim>\<open>tableNameMap\<close>, the schema, a table's fields) start
  as \<^verbatim>\<open>{}\<close> and are only written by key, so they are maps from keys to own properties.
  \<^verbatim>\<open>o[k] = v\<close> creates or overwrites the own property \<open>k\<close>, except for the key
  \<^verbatim>\<open>__proto__\<close>, which is an accessor of \<^verbatim>\<open>Object.prototype\<close>: the assignment never
  creates an own property.
\<close>

definition set_property :: "(string \<rightharpoonup> 'v) \<Rightarrow> string \<Rightarrow> 'v \<Rightarrow> (string \<rightharpoonup> 'v)" where
  "set_property m k v = (if k = ''__proto__'' then m else m(k \<mapsto> v))"

text \<open>
  The functions every plain object inherits from \<^verbatim>\<open>Object.prototype\<close>, by property name.
\<close>

definition object_prototype :: "(string \<times> string) list" where
  "object_prototype =
     [(''constructor'', ''Object''),
      (''hasOwnProperty'', ''hasOwnProperty''),
      (''isPrototypeOf'', ''isPrototypeOf''),
      (''propertyIsEnumerable'', ''propertyIsEnumerable''),
      (''toLocaleString'', ''toLocaleString''),
      (''toString'', ''toString''),
      (''valueOf'', ''valueOf''),
      (''__defineGetter__'', ''__defineGetter__''),
      (''__defineSetter__'', ''__defineSetter__''),
      (''__lookupGetter__'', ''__lookupGetter__''),
      (''__lookupSetter__'', ''__lookupSetter__'')]"

text \<open>
  \<^verbatim>\<open>o[k]\<close> on such an object: the own property if there is one, else what
  \<^verbatim>\<open>Object.prototype\<close> has under that name, else \<^verbatim>\<open>undefined\<close>. \<^verbatim>\<open>__proto__\<close> reads
  the prototype itself, an object with no enumerable property.
\<close>

definition get_property :: "(string \<rightharpoonup> jsval) \<Rightarrow> string \<Rightarrow> jsval" where
  "get_property m k =
     (case m k of
        Some v \<Rightarrow> v
      | None \<Rightarrow>
          (case map_of object_prototype k of
             Some n \<Rightarrow> JFunction n
           | None \<Rightarrow> if k = ''__proto__'' then JObj [] else JUndefined))"

section \<open>The agent and its database client\<close>

text \<open>
  The \<^verbatim>\<open>pg\<close> client is outside the repository. A driver says how it answers a call,
  given the calls made before: an error message, or the rows of the result. The agent's
  \<open>client\<close> field is the list of calls made on its client so far, oldest first.
  The fields \<^verbatim>\<open>type\<close> and \<^verbatim>\<open>dbName\<close> are set once by the constructor and read by none
  of the methods below; \<^verbatim>\<open>generatePlan\<close> is \<open>introspect\<close> followed by a call of the plan
  generator, which is outside the repository.
\<close>

datatype call =
    Connect
  | End
  | Query string "jsval list option"

type_synonym row = obj

type_synonym driver = "call list \<Rightarrow> call \<Rightarrow> string + row list"

record agent =
  client :: "call list"
  connected :: bool
  tableNameMap :: "string \<rightharpoonup> jsval"

definition client_call :: "driver \<Rightarrow> call \<Rightarrow> agent \<Rightarrow> (error + row list) \<times> agent" where
  "client_call drv c a =
     ((case drv (client a) c of Inl msg \<Rightarrow> Inl (DriverError msg) | Inr rs \<Rightarrow> Inr rs),
      a\<lparr>client := client a @ [c]\<rparr>)"

definition connectIfNeeded :: "driver \<Rightarrow> agent \<Rightarrow> (error + unit) \<times> agent" where
  "connectIfNeeded drv a =
     (if \<not> connected a then
        (case client_call drv Connect a of
           (Inl e, a') \<Rightarrow> (Inl e, a')
         | (Inr _, a') \<Rightarrow> (Inr (), a'\<lparr>connected := True\<rparr>))
      else (Inr (), a))"

definition close :: "driver \<Rightarrow> agent \<Rightarrow> (error + unit) \<times> agent" where
  "close drv a =
     (if connected a then
        (case client_call drv End a of
           (Inl e, a') \<Rightarrow> (Inl e, a')
         | (Inr _, a') \<Rightarrow> (Inr (), a'\<lparr>connected := False\<rparr>))
      else (Inr (), a))"

section \<open>validate\<close>

text \<open>A plan is the object the plan generator returned.\<close>

type_synonym plan = obj

definition validate :: "plan \<Rightarrow> bool" where
  "validate plan =
     (if \<not> truthy (own_property plan ''operation'') \<or> \<not> truthy (own_property plan ''table'') then False
      else True)"

text \<open>
  The plan's data model: a field that is present holds a string (\<^verbatim>\<open>null\<close> counts as
  missing).
\<close>

fun string_or_missing :: "jsval \<Rightarrow> bool" where
  "string_or_missing JUndefined = True"
| "string_or_missing JNull = True"
| "string_or_missing (JStr s) = True"
| "string_or_missing v = False"

text \<open>
  ``Present and non-empty'', read on any value a field can hold: the field is there
  (\<^verbatim>\<open>null\<close> counts as missing), and it is not the empty string, the empty array or the
  object without properties.
\<close>

fun present_and_non_empty :: "jsval \<Rightarrow> bool" where
  "present_and_non_empty JUndefined = False"
| "present_and_non_empty JNull = False"
| "present_and_non_empty (JStr s) = (s \<noteq> [])"
| "present_and_non_empty (JArr xs) = (xs \<noteq> [])"
| "present_and_non_empty (JObj kvs) = (kvs \<noteq> [])"
| "present_and_non_empty v = True"

section \<open>introspect\<close>

text \<open>
  The returned schema: \<^verbatim>\<open>schema[table] = { fields: { column: { type } } }\<close>. (\<open>fields\<close>
  is not available as a record field name, hence \<open>fields_of\<close>.)
\<close>

record field_entry =
  type :: jsval

record table_entry =
  fields_of :: "string \<rightharpoonup> field_entry"

type_synonym schema = "string \<rightharpoonup> table_entry"

definition tables_sql :: string where
  "tables_sql = ''\<newline>      SELECT table_name\<newline>      FROM information_schema.tables\<newline>      WHERE table_schema = 'public'\<newline>    ''"

definition columns_sql :: string where
  "columns_sql = ''\<newline>        SELECT column_name, data_type\<newline>        FROM information_schema.columns\<newline>        WHERE table_name = $1\<newline>      ''"

text \<open>The \<^verbatim>\<open>reduce\<close> over the rows of the columns query, from \<^verbatim>\<open>{}\<close>.\<close>

definition reduce_columns :: "row list \<Rightarrow> (string \<rightharpoonup> field_entry)" where
  "reduce_columns columnsRes =
     foldl (\<lambda>acc col.
              set_property acc (to_string (own_property col ''column_name''))
                \<lparr>type = own_property col ''data_type''\<rparr>)
       Map.empty columnsRes"

text \<open>The \<^verbatim>\<open>for\<close> loop over the rows of the tables query.\<close>

fun introspect_rows :: "driver \<Rightarrow> row list \<Rightarrow> schema \<Rightarrow> agent \<Rightarrow> (error + schema) \<times> agent" where
  "introspect_rows drv [] schema a = (Inr schema, a)"
| "introspect_rows drv (row # rest) schema a =
     (let table = own_property row ''table_name'' in
      case toLowerCase table of
        Inl e \<Rightarrow> (Inl e, a)
      | Inr key \<Rightarrow>
          (let a1 = a\<lparr>tableNameMap := set_property (tableNameMap a) key table\<rparr> in
           case client_call drv (Query columns_sql (Some [table])) a1 of
             (Inl e, a2) \<Rightarrow> (Inl e, a2)
           | (Inr columnsRes, a2) \<Rightarrow>
               introspect_rows drv rest
                 (set_property schema (to_string table)
                    \<lparr>fields_of = reduce_columns columnsRes\<rparr>)
                 a2))"

definition introspect :: "driver \<Rightarrow> agent \<Rightarrow> (error + schema) \<times> agent" where
  "introspect drv a =
     (case connectIfNeeded drv a of
        (Inl e, a1) \<Rightarrow> (Inl e, a1)
      | (Inr _, a1) \<Rightarrow>
          (case client_call drv (Query tables_sql None) a1 of
             (Inl e, a2) \<Rightarrow> (Inl e, a2)
           | (Inr tablesRes, a2) \<Rightarrow>
               introspect_rows drv tablesRes Map.empty (a2\<lparr>tableNameMap := Map.empty\<rparr>)))"

section \<open>execute\<close>

definition getActualTableName :: "agent \<Rightarrow> jsval \<Rightarrow> error + jsval" where
  "getActualTableName a requested =
     (case toLowerCase requested of
        Inl e \<Rightarrow> Inl e
      | Inr key \<Rightarrow>
          (let v = get_property (tableNameMap a) key in
           Inr (if truthy v then v else requested)))"

record execution_result =
  rows :: "row list"
  rawQuery :: string
  queryType :: string

text \<open>
  (The local \<^verbatim>\<open>fields\<close> of \<open>execute\<close> is written \<open>fields'\<close> below.)
  The end of every supported branch: \<^verbatim>\<open>res = await this.client.query(...)\<close>, then the
  \<^verbatim>\<open>return\<close> after the \<^verbatim>\<open>switch\<close>. \<open>None\<close> as parameters is a call with the text alone.
\<close>

definition query_and_return ::
  "driver \<Rightarrow> string \<Rightarrow> jsval list option \<Rightarrow> agent \<Rightarrow> (error + execution_result) \<times> agent" where
  "query_and_return drv sqlQuery params a =
     (case client_call drv (Query sqlQuery params) a of
        (Inl e, a') \<Rightarrow> (Inl e, a')
      | (Inr res, a') \<Rightarrow> (Inr \<lparr>rows = res, rawQuery = sqlQuery, queryType = ''sql''\<rparr>, a'))"

definition execute :: "driver \<Rightarrow> agent \<Rightarrow> plan \<Rightarrow> (error + execution_result) \<times> agent" where
  "execute drv a plan =
     (case connectIfNeeded drv a of
        (Inl e, a1) \<Rightarrow> (Inl e, a1)
      | (Inr _, a1) \<Rightarrow>
          (case getActualTableName a1 (own_property plan ''table'') of
             Inl e \<Rightarrow> (Inl e, a1)
           | Inr actualTableName \<Rightarrow>
               (let quotedTableName = ''\"'' @ to_string actualTableName @ ''\"'';
                    operation = own_property plan ''operation''
                in
                if operation = JStr ''select'' then
                  (let where =
                         (if truthy (own_property plan ''where'') then own_property plan ''where''
                          else JStr ''TRUE'');
                       fields' =
                         (case own_property plan ''fields'' of
                            JArr xs \<Rightarrow> if length xs > 0 then array_join '', '' xs else ''*''
                          | _ \<Rightarrow> ''*'');
                       sqlQuery =
                         ''SELECT '' @ fields' @ '' FROM '' @ quotedTableName
                           @ '' WHERE '' @ to_string where
                   in query_and_return drv sqlQuery None a1)
                else if operation = JStr ''insert'' then
                  (case object_keys (own_property plan ''values'') of
                     Inl e \<Rightarrow> (Inl e, a1)
                   | Inr fields' \<Rightarrow>
                       (case object_values (own_property plan ''values'') of
                          Inl e \<Rightarrow> (Inl e, a1)
                        | Inr values \<Rightarrow>
                            (let placeholders =
                                   join '', ''
                                     (map (\<lambda>i. ''$'' @ show_nat (i + 1)) [0..<length fields']);
                                 sqlQuery =
                                   ''INSERT INTO '' @ quotedTableName @ '' ('' @ join '', '' fields'
                                     @ '') VALUES ('' @ placeholders @ '') RETURNING *''
                             in query_and_return drv sqlQuery (Some values) a1)))
                else if operation = JStr ''update'' then
                  (case object_keys (own_property plan ''values'') of
                     Inl e \<Rightarrow> (Inl e, a1)
                   | Inr keys \<Rightarrow>
                       (case object_values (own_property plan ''values'') of
                          Inl e \<Rightarrow> (Inl e, a1)
                        | Inr values \<Rightarrow>
                            (let setFields =
                                   join '', ''
                                     (map (\<lambda>(k, i). k @ '' = $'' @ show_nat (i + 1))
                                        (zip keys [0..<length keys]));
                                 sqlQuery =
                                   ''UPDATE '' @ quotedTableName @ '' SET '' @ setFields
                                     @ '' WHERE '' @ to_string (own_property plan ''where'')
                                     @ '' RETURNING *''
                             in query_and_return drv sqlQuery (Some values) a1)))
                else if operation = JStr ''delete'' then
                  (let sqlQuery =
                         ''DELETE FROM '' @ quotedTableName @ '' WHERE ''
                           @ to_string (own_property plan ''where'') @ '' RETURNING *''
                   in query_and_return drv sqlQuery None a1)
                else (Inl (Error ''Unsupported operation''), a1))))"

section \<open>A database behind the client\<close>

text \<open>
  What a PostgreSQL server answers to the two catalogue queries of \<open>introspect\<close>:
  \<^verbatim>\<open>information_schema.tables\<close> has a row (schema, table) per table and
  \<^verbatim>\<open>information_schema.columns\<close> a row (schema, table, column, data type) per column.
  Any other query gets no rows. A \<^verbatim>\<open>pg\<close> client connects once: \<^verbatim>\<open>connect()\<close> on a client that
  has been connected before, also after \<^verbatim>\<open>end()\<close>, is refused with the message below. The
  agent creates its one client in the constructor and never replaces it.
\<close>

record catalog =
  tables :: "(string \<times> string) list"
  columns :: "(string \<times> string \<times> string \<times> string) list"

definition catalog_driver :: "catalog \<Rightarrow> driver" where
  "catalog_driver cat history c =
     (case c of
        Connect \<Rightarrow>
          if Connect \<in> set history then
            Inl ''Client has already been connected. You cannot reuse a client.''
          else Inr []
      | End \<Rightarrow> Inr []
      | Query sql params \<Rightarrow>
          if sql = tables_sql \<and> params = None then
            Inr (map (\<lambda>(s, t). [(''table_name'', JStr t)])
                   (filter (\<lambda>(s, t). s = ''public'') (tables cat)))
          else if sql = columns_sql then
            (case params of
               Some [p] \<Rightarrow>
                 Inr (map (\<lambda>(s, t, cn, ty). [(''column_name'', JStr cn), (''data_type'', JStr ty)])
                        (filter (\<lambda>(s, t, cn, ty). JStr t = p) (columns cat)))
             | _ \<Rightarrow> Inl ''bind message supplies the wrong number of parameters'')
          else Inr [])"

text \<open>A freshly constructed agent: nothing called yet, not connected, an empty map.\<close>

definition new_agent :: agent where
  "new_agent = \<lparr>client = [], connected = False, tableNameMap = Map.empty\<rparr>"

text \<open>
  A database for the examples: a table \<open>Users\<close> in the schema \<open>public\<close> and a table of
  the same name in a schema \<open>audit\<close>; and an agent that is connected and has that
  table in its map.
\<close>

definition example_catalog :: catalog where
  "example_catalog =
     \<lparr>tables = [(''public'', ''Users''), (''audit'', ''Users'')],
      columns = [(''public'', ''Users'', ''id'', ''integer''),
                 (''audit'', ''Users'', ''secret'', ''text'')]\<rparr>"

definition example_agent :: agent where
  "example_agent =
     \<lparr>client = [], connected = True, tableNameMap = [''users'' \<mapsto> JStr ''Users'']\<rparr>"

section \<open>Basic facts\<close>

lemmas eval_simps =
  own_property_def connectIfNeeded_def client_call_def getActualTableName_def
  get_property_def object_prototype_def toLowerCase_char_def catalog_driver_def
  tables_sql_def columns_sql_def new_agent_def example_agent_def example_catalog_def
  show_nat.simps digit_def Let_def

lemma query_and_return_eq:
  "query_and_return drv sql params a =
     ((case drv (client a) (Query sql params) of
         Inl msg \<Rightarrow> Inl (DriverError msg)
       | Inr rs \<Rightarrow> Inr \<lparr>rows = rs, rawQuery = sql, queryType = ''sql''\<rparr>),
      a\<lparr>client := client a @ [Query sql params]\<rparr>)"
  by (simp add: query_and_return_def client_call_def split: sum.split)

section \<open>Properties of validate\<close>

text \<open>
  C7, as stated, fails on values that are not strings: the number \<open>0\<close> is present and
  not empty and is refused, an empty array or object is empty and is accepted.
\<close>

theorem validate_not_present_and_non_empty:
  "(present_and_non_empty (own_property [(''operation'', JNum 0), (''table'', JStr ''t'')] ''operation'')
    \<and> present_and_non_empty (own_property [(''operation'', JNum 0), (''table'', JStr ''t'')] ''table'')
    \<and> \<not> validate [(''operation'', JNum 0), (''table'', JStr ''t'')])
   \<and> (validate [(''operation'', JArr []), (''table'', JObj [])]
    \<and> \<not> present_and_non_empty (own_property [(''operation'', JArr []), (''table'', JObj [])] ''operation''))"
  by (simp add: validate_def own_property_def)

text \<open>
  C7, amended. For every plan, \<open>validate\<close> returns true exactly when neither the
  \<open>operation\<close> nor the \<open>table\<close> field is missing, \<^verbatim>\<open>null\<close>, \<^verbatim>\<open>false\<close>, \<open>0\<close> or the empty
  string; so a missing field always makes it false, and when the two fields hold strings
  (or are missing) it is true exactly when both are present and not the empty string.
  No other field matters: setting any other key leaves the answer as it was, so an
  operation outside the four supported kinds or a missing \<open>values\<close> or \<open>where\<close> does not
  make it false.
\<close>

theorem validate_iff:
  "(validate plan \<longleftrightarrow>
      own_property plan ''operation'' \<notin> {JUndefined, JNull, JBool False, JNum 0, JStr []}
      \<and> own_property plan ''table'' \<notin> {JUndefined, JNull, JBool False, JNum 0, JStr []})
   \<and> (map_of plan ''operation'' = None \<or> map_of plan ''table'' = None \<longrightarrow> \<not> validate plan)
   \<and> (string_or_missing (own_property plan ''operation'')
        \<and> string_or_missing (own_property plan ''table'') \<longrightarrow>
      (validate plan \<longleftrightarrow>
         (\<exists>operation. map_of plan ''operation'' = Some (JStr operation) \<and> operation \<noteq> [])
         \<and> (\<exists>table. map_of plan ''table'' = Some (JStr table) \<and> table \<noteq> [])))
   \<and> (\<forall>k v. k \<noteq> ''operation'' \<and> k \<noteq> ''table'' \<longrightarrow>
         validate ((k, v) # plan) = validate plan)"
proof -
  have falsy: "truthy v \<longleftrightarrow> v \<notin> {JUndefined, JNull, JBool False, JNum 0, JStr []}" for v
    by (cases v) auto
  have field: "truthy (own_property plan k) \<longleftrightarrow> (\<exists>s. map_of plan k = Some (JStr s) \<and> s \<noteq> [])"
    if "string_or_missing (own_property plan k)" for k
    using that
    by (cases "map_of plan k"; cases "own_property plan k") (auto simp: own_property_def)
  have v: "validate plan \<longleftrightarrow>
          truthy (own_property plan ''operation'') \<and> truthy (own_property plan ''table'')"
    by (simp add: validate_def)
  have 1: "validate plan \<longleftrightarrow>
      own_property plan ''operation'' \<notin> {JUndefined, JNull, JBool False, JNum 0, JStr []}
      \<and> own_property plan ''table'' \<notin> {JUndefined, JNull, JBool False, JNum 0, JStr []}"
    unfolding v falsy ..
  have 2: "\<not> validate plan"
    if "map_of plan ''operation'' = None \<or> map_of plan ''table'' = None"
    using that by (auto simp add: validate_def own_property_def)
  have 3: "validate plan \<longleftrightarrow>
         (\<exists>operation. map_of plan ''operation'' = Some (JStr operation) \<and> operation \<noteq> [])
         \<and> (\<exists>table. map_of plan ''table'' = Some (JStr table) \<and> table \<noteq> [])"
    if "string_or_missing (own_property plan ''operation'')
        \<and> string_or_missing (own_property plan ''table'')"
    using that field [of "''operation''"] field [of "''table''"] v by blast
  have 4: "validate ((k, v) # plan) = validate plan"
    if "k \<noteq> ''operation'' \<and> k \<noteq> ''table''" for k v
    using that by (auto simp add: validate_def own_property_def)
  from 1 2 3 4 show ?thesis by blast
qed

text \<open>
  A plan with an unsupported operation and neither \<open>values\<close> nor \<open>where\<close> passes, also
  with another field set; the same plan without its table does not.
\<close>

theorem validate_iff_witness:
  "validate [(''operation'', JStr ''drop''), (''table'', JStr ''t'')]
   \<and> \<not> validate [(''operation'', JStr ''drop'')]
   \<and> validate [(''where'', JNum 0), (''operation'', JStr ''drop''), (''table'', JStr ''t'')]"
proof -
  let ?p = "[(''operation'', JStr ''drop''), (''table'', JStr ''t'')]"
  let ?q = "[(''operation'', JStr ''drop'')]"
  have p: "string_or_missing (own_property ?p ''operation'')
      \<and> string_or_missing (own_property ?p ''table'')"
    by (simp add: own_property_def)
  have q: "map_of ?q ''operation'' = None \<or> map_of ?q ''table'' = None"
    by simp
  have "validate ?p"
    using validate_iff [of ?p] p by (simp add: own_property_def)
  moreover have "\<not> validate ?q"
    using validate_iff [of ?q] q by blast
  moreover have "validate ((''where'', JNum 0) # ?p) = validate ?p"
    using validate_iff [of ?p] by (simp add: own_property_def)
  ultimately show ?thesis by simp
qed

section \<open>Properties of execute\<close>

text \<open>
  C2. A select plan without \<open>fields\<close> (or with an empty list of them) and without
  \<open>where\<close>: once the connection step has succeeded and the table name is resolved,
  \<open>execute\<close> sends exactly \<^verbatim>\<open>SELECT * FROM "<table>" WHERE TRUE\<close>, with no parameters, and
  returns the driver's rows with that text.
\<close>

theorem execute_select_default:
  assumes "own_property plan ''operation'' = JStr ''select''"
    and "own_property plan ''fields'' = JUndefined \<or> own_property plan ''fields'' = JArr []"
    and "own_property plan ''where'' = JUndefined"
    and "connectIfNeeded drv a = (Inr (), a1)"
    and "getActualTableName a1 (own_property plan ''table'') = Inr table"
  shows "execute drv a plan =
     (let sqlQuery = ''SELECT * FROM \"'' @ to_string table @ ''\" WHERE TRUE'' in
      ((case drv (client a1) (Query sqlQuery None) of
          Inl msg \<Rightarrow> Inl (DriverError msg)
        | Inr rs \<Rightarrow> Inr \<lparr>rows = rs, rawQuery = sqlQuery, queryType = ''sql''\<rparr>),
       a1\<lparr>client := client a1 @ [Query sqlQuery None]\<rparr>))"
  using assms by (auto simp add: execute_def Let_def query_and_return_eq split: sum.split)

theorem execute_select_default_witness:
  "execute (catalog_driver example_catalog) example_agent
     [(''operation'', JStr ''select''), (''table'', JStr ''USERS'')] =
   (Inr \<lparr>rows = [], rawQuery = ''SELECT * FROM \"Users\" WHERE TRUE'', queryType = ''sql''\<rparr>,
    example_agent\<lparr>client := [Query ''SELECT * FROM \"Users\" WHERE TRUE'' None]\<rparr>)"
proof -
  let ?plan = "[(''operation'', JStr ''select''), (''table'', JStr ''USERS'')]"
  have 1: "own_property ?plan ''operation'' = JStr ''select''"
    by (simp add: own_property_def)
  have 2: "own_property ?plan ''fields'' = JUndefined \<or> own_property ?plan ''fields'' = JArr []"
    by (simp add: own_property_def)
  have 3: "own_property ?plan ''where'' = JUndefined"
    by (simp add: own_property_def)
  have 4: "connectIfNeeded (catalog_driver example_catalog) example_agent = (Inr (), example_agent)"
    by (simp add: connectIfNeeded_def example_agent_def)
  have 5: "getActualTableName example_agent (own_property ?plan ''table'') = Inr (JStr ''Users'')"
    by (simp add: eval_simps)
  show ?thesis
    using execute_select_default [OF 1 2 3 4 5]
    by (simp add: eval_simps)
qed

text \<open>
  C3. An insert plan with a \<open>values\<close> mapping: the columns are the keys of the mapping
  in enumeration order, the placeholders are \<^verbatim>\<open>$1\<close> to \<^verbatim>\<open>$n\<close>, and the bound parameters
  are the values of the mapping in the same order.
\<close>

theorem execute_insert:
  assumes "own_property plan ''operation'' = JStr ''insert''"
    and "own_property plan ''values'' = JObj values"
    and "connectIfNeeded drv a = (Inr (), a1)"
    and "getActualTableName a1 (own_property plan ''table'') = Inr table"
  shows "execute drv a plan =
     (let sqlQuery =
            ''INSERT INTO \"'' @ to_string table @ ''\" ('' @ join '', '' (map fst values)
              @ '') VALUES (''
              @ join '', '' (map (\<lambda>i. ''$'' @ show_nat (i + 1)) [0..<length values])
              @ '') RETURNING *'';
          params = Some (map snd values)
      in
      ((case drv (client a1) (Query sqlQuery params) of
          Inl msg \<Rightarrow> Inl (DriverError msg)
        | Inr rs \<Rightarrow> Inr \<lparr>rows = rs, rawQuery = sqlQuery, queryType = ''sql''\<rparr>),
       a1\<lparr>client := client a1 @ [Query sqlQuery params]\<rparr>))"
  using assms by (auto simp add: execute_def Let_def query_and_return_eq split: sum.split)

text \<open>The example of the claim: \<^verbatim>\<open>values = {a: 1, b: "x"}\<close>, on a fresh agent.\<close>

theorem execute_insert_witness:
  "execute (catalog_driver example_catalog) new_agent
     [(''operation'', JStr ''insert''), (''table'', JStr ''t''),
      (''values'', JObj [(''a'', JNum 1), (''b'', JStr ''x'')])] =
   (Inr \<lparr>rows = [], rawQuery = ''INSERT INTO \"t\" (a, b) VALUES ($1, $2) RETURNING *'',
          queryType = ''sql''\<rparr>,
    \<lparr>client = [Connect,
        Query ''INSERT INTO \"t\" (a, b) VALUES ($1, $2) RETURNING *'' (Some [JNum 1, JStr ''x''])],
     connected = True, tableNameMap = Map.empty\<rparr>)"
proof -
  let ?plan = "[(''operation'', JStr ''insert''), (''table'', JStr ''t''),
      (''values'', JObj [(''a'', JNum 1), (''b'', JStr ''x'')])]"
  let ?a1 = "\<lparr>client = [Connect], connected = True, tableNameMap = Map.empty\<rparr>"
  have 1: "own_property ?plan ''operation'' = JStr ''insert''"
    by (simp add: own_property_def)
  have 2: "own_property ?plan ''values'' = JObj [(''a'', JNum 1), (''b'', JStr ''x'')]"
    by (simp add: own_property_def)
  have 3: "connectIfNeeded (catalog_driver example_catalog) new_agent = (Inr (), ?a1)"
    by (simp add: eval_simps)
  have 4: "getActualTableName ?a1 (own_property ?plan ''table'') = Inr (JStr ''t'')"
    by (simp add: eval_simps)
  show ?thesis
    using execute_insert [OF 1 2 3 4]
    by (simp add: eval_simps upt_rec)
qed

text \<open>
  C4. An update plan with a \<open>values\<close> mapping and a \<open>where\<close> string: one \<^verbatim>\<open>k = $i\<close> per
  key of the mapping, in enumeration order and numbered from 1; the \<open>where\<close> text copied
  into the statement as it is; the values of the mapping bound in the same order.
\<close>

theorem execute_update:
  assumes "own_property plan ''operation'' = JStr ''update''"
    and "own_property plan ''values'' = JObj values"
    and "own_property plan ''where'' = JStr where"
    and "connectIfNeeded drv a = (Inr (), a1)"
    and "getActualTableName a1 (own_property plan ''table'') = Inr table"
  shows "execute drv a plan =
     (let sqlQuery =
            ''UPDATE \"'' @ to_string table @ ''\" SET ''
              @ join '', ''
                  (map (\<lambda>(k, i). k @ '' = $'' @ show_nat (i + 1))
                     (zip (map fst values) [0..<length values]))
              @ '' WHERE '' @ where @ '' RETURNING *'';
          params = Some (map snd values)
      in
      ((case drv (client a1) (Query sqlQuery params) of
          Inl msg \<Rightarrow> Inl (DriverError msg)
        | Inr rs \<Rightarrow> Inr \<lparr>rows = rs, rawQuery = sqlQuery, queryType = ''sql''\<rparr>),
       a1\<lparr>client := client a1 @ [Query sqlQuery params]\<rparr>))"
  using assms by (auto simp add: execute_def Let_def query_and_return_eq split: sum.split)

text \<open>The example of the claim: \<^verbatim>\<open>values = {a: 5}\<close>, \<^verbatim>\<open>where = "id = 1"\<close>.\<close>

theorem execute_update_witness:
  "execute (catalog_driver example_catalog) new_agent
     [(''operation'', JStr ''update''), (''table'', JStr ''t''),
      (''values'', JObj [(''a'', JNum 5)]), (''where'', JStr ''id = 1'')] =
   (Inr \<lparr>rows = [], rawQuery = ''UPDATE \"t\" SET a = $1 WHERE id = 1 RETURNING *'',
          queryType = ''sql''\<rparr>,
    \<lparr>client = [Connect,
        Query ''UPDATE \"t\" SET a = $1 WHERE id = 1 RETURNING *'' (Some [JNum 5])],
     connected = True, tableNameMap = Map.empty\<rparr>)"
proof -
  let ?plan = "[(''operation'', JStr ''update''), (''table'', JStr ''t''),
      (''values'', JObj [(''a'', JNum 5)]), (''where'', JStr ''id = 1'')]"
  let ?a1 = "\<lparr>client = [Connect], connected = True, tableNameMap = Map.empty\<rparr>"
  have 1: "own_property ?plan ''operation'' = JStr ''update''"
    by (simp add: own_property_def)
  have 2: "own_property ?plan ''values'' = JObj [(''a'', JNum 5)]"
    by (simp add: own_property_def)
  have 3: "own_property ?plan ''where'' = JStr ''id = 1''"
    by (simp add: own_property_def)
  have 4: "connectIfNeeded (catalog_driver example_catalog) new_agent = (Inr (), ?a1)"
    by (simp add: eval_simps)
  have 5: "getActualTableName ?a1 (own_property ?plan ''table'') = Inr (JStr ''t'')"
    by (simp add: eval_simps)
  show ?thesis
    using execute_update [OF 1 2 3 4 5]
    by (simp add: eval_simps upt_rec)
qed

text \<open>
  C5. A delete plan with a \<open>where\<close> string: exactly
  \<^verbatim>\<open>DELETE FROM "<table>" WHERE <where> RETURNING *\<close>, the \<open>where\<close> text copied as it is,
  sent with no parameters.
\<close>

theorem execute_delete:
  assumes "own_property plan ''operation'' = JStr ''delete''"
    and "own_property plan ''where'' = JStr where"
    and "connectIfNeeded drv a = (Inr (), a1)"
    and "getActualTableName a1 (own_property plan ''table'') = Inr table"
  shows "execute drv a plan =
     (let sqlQuery =
            ''DELETE FROM \"'' @ to_string table @ ''\" WHERE '' @ where @ '' RETURNING *''
      in
      ((case drv (client a1) (Query sqlQuery None) of
          Inl msg \<Rightarrow> Inl (DriverError msg)
        | Inr rs \<Rightarrow> Inr \<lparr>rows = rs, rawQuery = sqlQuery, queryType = ''sql''\<rparr>),
       a1\<lparr>client := client a1 @ [Query sqlQuery None]\<rparr>))"
  using assms by (auto simp add: execute_def Let_def query_and_return_eq split: sum.split)

text \<open>The example of the claim, \<^verbatim>\<open>where = "id = 1"\<close>, on the table \<open>Users\<close> asked for as \<open>users\<close>.\<close>

theorem execute_delete_witness:
  "execute (catalog_driver example_catalog) example_agent
     [(''operation'', JStr ''delete''), (''table'', JStr ''users''), (''where'', JStr ''id = 1'')] =
   (Inr \<lparr>rows = [], rawQuery = ''DELETE FROM \"Users\" WHERE id = 1 RETURNING *'',
          queryType = ''sql''\<rparr>,
    example_agent\<lparr>client := [Query ''DELETE FROM \"Users\" WHERE id = 1 RETURNING *'' None]\<rparr>)"
proof -
  let ?plan = "[(''operation'', JStr ''delete''), (''table'', JStr ''users''),
      (''where'', JStr ''id = 1'')]"
  have 1: "own_property ?plan ''operation'' = JStr ''delete''"
    by (simp add: own_property_def)
  have 2: "own_property ?plan ''where'' = JStr ''id = 1''"
    by (simp add: own_property_def)
  have 3: "connectIfNeeded (catalog_driver example_catalog) example_agent = (Inr (), example_agent)"
    by (simp add: connectIfNeeded_def example_agent_def)
  have 4: "getActualTableName example_agent (own_property ?plan ''table'') = Inr (JStr ''Users'')"
    by (simp add: eval_simps)
  show ?thesis
    using execute_delete [OF 1 2 3 4]
    by (simp add: eval_simps)
qed

text \<open>
  C10. An update plan (with a \<open>values\<close> mapping) or a delete plan whose \<open>where\<close> is
  absent: nothing is raised before the query; the statement carries the text
  \<^verbatim>\<open>undefined\<close> as its predicate and is sent to the database.
\<close>

theorem execute_where_absent:
  assumes "own_property plan ''where'' = JUndefined"
    and "connectIfNeeded drv a = (Inr (), a1)"
    and "getActualTableName a1 (own_property plan ''table'') = Inr table"
  shows "(own_property plan ''operation'' = JStr ''update''
            \<and> own_property plan ''values'' = JObj values \<longrightarrow>
          execute drv a plan =
            (let sqlQuery =
                   ''UPDATE \"'' @ to_string table @ ''\" SET ''
                     @ join '', ''
                         (map (\<lambda>(k, i). k @ '' = $'' @ show_nat (i + 1))
                            (zip (map fst values) [0..<length values]))
                     @ '' WHERE undefined RETURNING *'';
                 params = Some (map snd values)
             in
             ((case drv (client a1) (Query sqlQuery params) of
                 Inl msg \<Rightarrow> Inl (DriverError msg)
               | Inr rs \<Rightarrow> Inr \<lparr>rows = rs, rawQuery = sqlQuery, queryType = ''sql''\<rparr>),
              a1\<lparr>client := client a1 @ [Query sqlQuery params]\<rparr>)))
       \<and> (own_property plan ''operation'' = JStr ''delete'' \<longrightarrow>
          execute drv a plan =
            (let sqlQuery =
                   ''DELETE FROM \"'' @ to_string table @ ''\" WHERE undefined RETURNING *''
             in
             ((case drv (client a1) (Query sqlQuery None) of
                 Inl msg \<Rightarrow> Inl (DriverError msg)
               | Inr rs \<Rightarrow> Inr \<lparr>rows = rs, rawQuery = sqlQuery, queryType = ''sql''\<rparr>),
              a1\<lparr>client := client a1 @ [Query sqlQuery None]\<rparr>)))"
  using assms by (auto simp add: execute_def Let_def query_and_return_eq split: sum.split)

theorem execute_where_absent_witness:
  "execute (catalog_driver example_catalog) new_agent
     [(''operation'', JStr ''update''), (''table'', JStr ''t''),
      (''values'', JObj [(''a'', JNum 5)])] =
   (Inr \<lparr>rows = [], rawQuery = ''UPDATE \"t\" SET a = $1 WHERE undefined RETURNING *'',
          queryType = ''sql''\<rparr>,
    \<lparr>client = [Connect,
        Query ''UPDATE \"t\" SET a = $1 WHERE undefined RETURNING *'' (Some [JNum 5])],
     connected = True, tableNameMap = Map.empty\<rparr>)
   \<and> execute (catalog_driver example_catalog) new_agent
     [(''operation'', JStr ''delete''), (''table'', JStr ''t'')] =
   (Inr \<lparr>rows = [], rawQuery = ''DELETE FROM \"t\" WHERE undefined RETURNING *'',
          queryType = ''sql''\<rparr>,
    \<lparr>client = [Connect, Query ''DELETE FROM \"t\" WHERE undefined RETURNING *'' None],
     connected = True, tableNameMap = Map.empty\<rparr>)"
proof -
  let ?u = "[(''operation'', JStr ''update''), (''table'', JStr ''t''),
      (''values'', JObj [(''a'', JNum 5)])]"
  let ?d = "[(''operation'', JStr ''delete''), (''table'', JStr ''t'')]"
  let ?a1 = "\<lparr>client = [Connect], connected = True, tableNameMap = Map.empty\<rparr>"
  have conn: "connectIfNeeded (catalog_driver example_catalog) new_agent = (Inr (), ?a1)"
    by (simp add: eval_simps)
  have u: "own_property ?u ''where'' = JUndefined"
    "getActualTableName ?a1 (own_property ?u ''table'') = Inr (JStr ''t'')"
    "own_property ?u ''operation'' = JStr ''update''
       \<and> own_property ?u ''values'' = JObj [(''a'', JNum 5)]"
    by (simp_all add: eval_simps)
  have d: "own_property ?d ''where'' = JUndefined"
    "getActualTableName ?a1 (own_property ?d ''table'') = Inr (JStr ''t'')"
    "own_property ?d ''operation'' = JStr ''delete''"
    by (simp_all add: eval_simps)
  show ?thesis
    using execute_where_absent [OF u(1) conn u(2), of "[(''a'', JNum 5)]"] u(3)
      execute_where_absent [OF d(1) conn d(2), of "[]"] d(3)
    by (simp add: eval_simps upt_rec)
qed

section \<open>Properties of the connection\<close>

lemma connectIfNeeded_client:
  "client (snd (connectIfNeeded drv a)) = client a @ (if connected a then [] else [Connect])"
  by (simp add: connectIfNeeded_def client_call_def split: sum.split)

lemma connectIfNeeded_Inr:
  assumes "connectIfNeeded drv a = (Inr u, a1)"
  shows "connected a1" and "tableNameMap a1 = tableNameMap a"
    and "client a1 = client a @ (if connected a then [] else [Connect])"
  using assms by (auto simp add: connectIfNeeded_def client_call_def split: if_splits sum.splits)

lemma query_and_return_connected:
  "connected (snd (query_and_return drv sql params a)) = connected a"
  by (simp add: query_and_return_eq)

lemma query_and_return_client:
  "client (snd (query_and_return drv sql params a)) = client a @ [Query sql params]"
  by (simp add: query_and_return_eq)

lemma introspect_rows_connected:
  "connected (snd (introspect_rows drv rs schema a)) = connected a"
  by (induction rs arbitrary: schema a)
    (auto simp add: Let_def client_call_def split: sum.splits prod.splits)

lemma introspect_rows_client:
  "\<exists>cs. client (snd (introspect_rows drv rs schema a)) = client a @ cs"
proof (induction rs arbitrary: schema a)
  case Nil
  then show ?case by simp
next
  case (Cons r rs)
  show ?case
  proof (cases "toLowerCase (own_property r ''table_name'')")
    case (Inl e)
    then show ?thesis by simp
  next
    case (Inr key)
    let ?t = "own_property r ''table_name''"
    let ?a1 = "a\<lparr>tableNameMap := set_property (tableNameMap a) key ?t\<rparr>"
    let ?q = "Query columns_sql (Some [?t])"
    show ?thesis
    proof (cases "drv (client a) ?q")
      case (Inl msg)
      with Inr show ?thesis by (simp add: client_call_def Let_def)
    next
      case (Inr cols)
      let ?a2 = "?a1\<lparr>client := client a @ [?q]\<rparr>"
      from Cons.IH [of "set_property schema (to_string ?t) \<lparr>fields_of = reduce_columns cols\<rparr>" ?a2]
      obtain cs where "client (snd (introspect_rows drv rs
          (set_property schema (to_string ?t) \<lparr>fields_of = reduce_columns cols\<rparr>) ?a2))
          = client ?a2 @ cs" by blast
      with Inr \<open>toLowerCase ?t = Inr key\<close> show ?thesis
        by (simp add: client_call_def Let_def)
    qed
  qed
qed

lemma execute_connected:
  assumes "connectIfNeeded drv a = (Inr (), a1)"
  shows "connected (snd (execute drv a plan))"
  using assms connectIfNeeded_Inr(1) [OF assms]
  by (auto simp add: execute_def Let_def query_and_return_connected split: sum.split)

lemma introspect_connected:
  assumes "connectIfNeeded drv a = (Inr (), a1)"
  shows "connected (snd (introspect drv a))"
  using assms connectIfNeeded_Inr(1) [OF assms]
  by (auto simp add: introspect_def client_call_def introspect_rows_connected split: sum.split)

lemma execute_client_prefix:
  "\<exists>cs. client (snd (execute drv a plan)) = client (snd (connectIfNeeded drv a)) @ cs"
  by (cases "connectIfNeeded drv a")
    (auto simp add: execute_def Let_def query_and_return_client split: sum.split)

lemma introspect_client_prefix:
  "\<exists>cs. client (snd (introspect drv a)) = client (snd (connectIfNeeded drv a)) @ cs"
proof (cases "connectIfNeeded drv a")
  case (Pair r a1)
  show ?thesis
  proof (cases r)
    case (Inl e)
    with Pair show ?thesis by (simp add: introspect_def)
  next
    case (Inr u)
    let ?q = "Query tables_sql None"
    show ?thesis
    proof (cases "drv (client a1) ?q")
      case (Inl msg)
      with Pair Inr show ?thesis by (simp add: introspect_def client_call_def)
    next
      case (Inr rs)
      let ?a2 = "a1\<lparr>client := client a1 @ [?q], tableNameMap := Map.empty\<rparr>"
      obtain cs where "client (snd (introspect_rows drv rs Map.empty ?a2)) = client ?a2 @ cs"
        using introspect_rows_client by blast
      with Pair \<open>r = Inr u\<close> Inr show ?thesis
        by (simp add: introspect_def client_call_def)
    qed
  qed
qed

text \<open>
  C6, as stated, fails on a plan without a table: the table name is resolved before the
  \<^verbatim>\<open>switch\<close>, and \<^verbatim>\<open>requested.toLowerCase()\<close> on \<^verbatim>\<open>undefined\<close> raises a \<^verbatim>\<open>TypeError\<close>,
  not the unsupported-operation error.
\<close>

theorem execute_unsupported_operation_no_table:
  "execute (catalog_driver example_catalog) new_agent [(''operation'', JStr ''drop'')] =
   (Inl TypeError, \<lparr>client = [Connect], connected = True, tableNameMap = Map.empty\<rparr>)"
  by (simp add: execute_def eval_simps)

text \<open>
  C6, amended. A plan whose operation is none of \<open>select\<close>, \<open>insert\<close>, \<open>update\<close>,
  \<open>delete\<close>: \<open>execute\<close> always ends in an error and makes no query; the only call it can
  add to the client is the \<open>Connect\<close> of the connection step. The error is that of the
  connection step when it fails; a \<^verbatim>\<open>TypeError\<close> when the plan's table is not a string; and
  otherwise the one raised by the \<^verbatim>\<open>default\<close> branch, \<^verbatim>\<open>Error("Unsupported operation")\<close>.
\<close>

theorem execute_unsupported_operation:
  assumes "own_property plan ''operation'' \<noteq> JStr ''select''"
    and "own_property plan ''operation'' \<noteq> JStr ''insert''"
    and "own_property plan ''operation'' \<noteq> JStr ''update''"
    and "own_property plan ''operation'' \<noteq> JStr ''delete''"
  shows "(\<exists>e. fst (execute drv a plan) = Inl e)
       \<and> client (snd (execute drv a plan)) = client a @ (if connected a then [] else [Connect])
       \<and> (connectIfNeeded drv a = (Inl e, a1) \<longrightarrow> execute drv a plan = (Inl e, a1))
       \<and> (connectIfNeeded drv a = (Inr (), a1)
            \<and> (\<forall>t. own_property plan ''table'' \<noteq> JStr t) \<longrightarrow>
          execute drv a plan = (Inl TypeError, a1))
       \<and> (connectIfNeeded drv a = (Inr (), a1) \<and> own_property plan ''table'' = JStr table \<longrightarrow>
          execute drv a plan = (Inl (Error ''Unsupported operation''), a1))"
proof -
  obtain r a' where c: "connectIfNeeded drv a = (r, a')"
    by (cases "connectIfNeeded drv a")
  have cl: "client a' = client a @ (if connected a then [] else [Connect])"
    using connectIfNeeded_client [of drv a] c by simp
  have 1: "(\<exists>e. fst (execute drv a plan) = Inl e) \<and> snd (execute drv a plan) = a'"
    using assms c by (auto simp add: execute_def Let_def split: sum.split)
  have 2: "execute drv a plan = (Inl e, a1)" if "connectIfNeeded drv a = (Inl e, a1)"
    using that by (simp add: execute_def)
  have 3: "execute drv a plan = (Inl TypeError, a1)"
    if "connectIfNeeded drv a = (Inr (), a1) \<and> (\<forall>t. own_property plan ''table'' \<noteq> JStr t)"
  proof -
    from that have "toLowerCase (own_property plan ''table'') = Inl TypeError"
      by (cases "own_property plan ''table''") simp_all
    with that show ?thesis
      by (simp add: execute_def getActualTableName_def)
  qed
  have 4: "execute drv a plan = (Inl (Error ''Unsupported operation''), a1)"
    if "connectIfNeeded drv a = (Inr (), a1) \<and> own_property plan ''table'' = JStr table"
    using assms that by (simp add: execute_def getActualTableName_def Let_def)
  from 1 2 3 4 cl show ?thesis by simp
qed

text \<open>
  An unsupported operation on a table \<open>t\<close>, on a table that is the number \<open>5\<close>, and on a
  client that was closed before.
\<close>

theorem execute_unsupported_operation_witness:
  "execute (catalog_driver example_catalog) new_agent
     [(''operation'', JStr ''drop''), (''table'', JStr ''t'')] =
   (Inl (Error ''Unsupported operation''),
    \<lparr>client = [Connect], connected = True, tableNameMap = Map.empty\<rparr>)
   \<and> execute (catalog_driver example_catalog) new_agent
     [(''operation'', JStr ''drop''), (''table'', JNum 5)] =
   (Inl TypeError, \<lparr>client = [Connect], connected = True, tableNameMap = Map.empty\<rparr>)
   \<and> execute (catalog_driver example_catalog)
     \<lparr>client = [Connect, End], connected = False, tableNameMap = Map.empty\<rparr>
     [(''operation'', JStr ''drop''), (''table'', JStr ''t'')] =
   (Inl (DriverError ''Client has already been connected. You cannot reuse a client.''),
    \<lparr>client = [Connect, End, Connect], connected = False, tableNameMap = Map.empty\<rparr>)"
proof -
  let ?drv = "catalog_driver example_catalog"
  let ?plan = "[(''operation'', JStr ''drop''), (''table'', JStr ''t'')]"
  let ?plan5 = "[(''operation'', JStr ''drop''), (''table'', JNum 5)]"
  let ?a1 = "\<lparr>client = [Connect], connected = True, tableNameMap = Map.empty\<rparr>"
  let ?a2 = "\<lparr>client = [Connect, End], connected = False, tableNameMap = Map.empty\<rparr>"
  let ?a3 = "\<lparr>client = [Connect, End, Connect], connected = False, tableNameMap = Map.empty\<rparr>"
  let ?msg = "''Client has already been connected. You cannot reuse a client.''"
  have op: "own_property ?plan ''operation'' \<noteq> JStr ''select''"
    "own_property ?plan ''operation'' \<noteq> JStr ''insert''"
    "own_property ?plan ''operation'' \<noteq> JStr ''update''"
    "own_property ?plan ''operation'' \<noteq> JStr ''delete''"
    by (simp_all add: own_property_def)
  have op5: "own_property ?plan5 ''operation'' \<noteq> JStr ''select''"
    "own_property ?plan5 ''operation'' \<noteq> JStr ''insert''"
    "own_property ?plan5 ''operation'' \<noteq> JStr ''update''"
    "own_property ?plan5 ''operation'' \<noteq> JStr ''delete''"
    by (simp_all add: own_property_def)
  have conn: "connectIfNeeded ?drv new_agent = (Inr (), ?a1)"
    by (simp add: eval_simps)
  have refused: "connectIfNeeded ?drv ?a2 = (Inl (DriverError ?msg), ?a3)"
    by (simp add: eval_simps)
  have t: "own_property ?plan ''table'' = JStr ''t''"
    by (simp add: own_property_def)
  have t5: "\<forall>t. own_property ?plan5 ''table'' \<noteq> JStr t"
    by (simp add: own_property_def)
  have "execute ?drv new_agent ?plan = (Inl (Error ''Unsupported operation''), ?a1)"
    using execute_unsupported_operation [OF op, of ?drv new_agent _ ?a1 "''t''"] conn t
    by blast
  moreover have "execute ?drv new_agent ?plan5 = (Inl TypeError, ?a1)"
    using execute_unsupported_operation [OF op5, of ?drv new_agent _ ?a1] conn t5
    by blast
  moreover have "execute ?drv ?a2 ?plan = (Inl (DriverError ?msg), ?a3)"
    using execute_unsupported_operation [OF op, of ?drv ?a2 "DriverError ?msg" ?a3] refused
    by blast
  ultimately show ?thesis by blast
qed

text \<open>
  The steps of the connection, for any driver. \<open>connectIfNeeded\<close> on a connected agent
  does nothing (no call, same agent); on a disconnected one it calls \<open>Connect\<close> and, when
  the driver accepts, sets the flag. So after one success any further call is a no-op.
  \<open>close\<close> on a connected agent calls \<open>End\<close> and, when the driver accepts, resets the
  flag. On a disconnected agent (as \<open>close\<close> leaves it) both \<open>execute\<close> and \<open>introspect\<close>
  start with a new \<open>Connect\<close>; they end connected when the driver accepts it, and fail
  with its error, still disconnected, when it refuses.
\<close>

lemma connection_steps:
  "(connected a \<longrightarrow> connectIfNeeded drv a = (Inr (), a))
   \<and> (\<not> connected a \<and> drv (client a) Connect = Inr rs \<longrightarrow>
        connectIfNeeded drv a = (Inr (), a\<lparr>client := client a @ [Connect], connected := True\<rparr>))
   \<and> (connectIfNeeded drv a = (Inr (), a1) \<longrightarrow>
        connected a1 \<and> connectIfNeeded drv' a1 = (Inr (), a1))
   \<and> (connected a \<and> drv (client a) End = Inr rs \<longrightarrow>
        close drv a = (Inr (), a\<lparr>client := client a @ [End], connected := False\<rparr>))
   \<and> (\<not> connected a \<longrightarrow>
        (\<exists>cs. client (snd (execute drv a plan)) = client a @ Connect # cs)
        \<and> (\<exists>cs. client (snd (introspect drv a)) = client a @ Connect # cs))
   \<and> (\<not> connected a \<and> drv (client a) Connect = Inr rs \<longrightarrow>
        connected (snd (execute drv a plan)) \<and> connected (snd (introspect drv a)))"
proof -
  have 1: "connectIfNeeded drv a = (Inr (), a)" if "connected a"
    using that by (simp add: connectIfNeeded_def)
  have 2: "connectIfNeeded drv a = (Inr (), a\<lparr>client := client a @ [Connect], connected := True\<rparr>)"
    if "\<not> connected a \<and> drv (client a) Connect = Inr rs"
    using that by (simp add: connectIfNeeded_def client_call_def)
  have 3: "connected a1 \<and> connectIfNeeded drv' a1 = (Inr (), a1)"
    if "connectIfNeeded drv a = (Inr (), a1)"
    using connectIfNeeded_Inr(1) [OF that] by (simp add: connectIfNeeded_def)
  have 4: "close drv a = (Inr (), a\<lparr>client := client a @ [End], connected := False\<rparr>)"
    if "connected a \<and> drv (client a) End = Inr rs"
    using that by (simp add: close_def client_call_def)
  have 5: "(\<exists>cs. client (snd (execute drv a plan)) = client a @ Connect # cs)
        \<and> (\<exists>cs. client (snd (introspect drv a)) = client a @ Connect # cs)"
    if "\<not> connected a"
    using that execute_client_prefix [of drv a plan] introspect_client_prefix [of drv a]
    by (auto simp add: connectIfNeeded_client)
  have 6: "connected (snd (execute drv a plan)) \<and> connected (snd (introspect drv a))"
    if "\<not> connected a \<and> drv (client a) Connect = Inr rs"
    using execute_connected [OF 2 [OF that]] introspect_connected [OF 2 [OF that]] by simp
  from 1 2 3 4 5 6 show ?thesis by blast
qed

lemma connect_refused:
  assumes "\<not> connected a" and "drv (client a) Connect = Inl msg"
  shows "execute drv a plan = (Inl (DriverError msg), a\<lparr>client := client a @ [Connect]\<rparr>)"
    and "introspect drv a = (Inl (DriverError msg), a\<lparr>client := client a @ [Connect]\<rparr>)"
  using assms by (simp_all add: execute_def introspect_def connectIfNeeded_def client_call_def)

text \<open>
  C9. The first part of the claim holds (\<open>connection_steps\<close>); the last does not. After
  \<open>close\<close> the flag is false, so \<open>execute\<close> and \<open>introspect\<close> call \<^verbatim>\<open>connect()\<close> again, on the
  one client the constructor created. That client was connected before and refuses, so
  both raise its error and the agent stays disconnected: the connection is not
  established again.
\<close>

theorem reconnect_after_close_refused:
  "connectIfNeeded (catalog_driver example_catalog) new_agent =
     (Inr (), \<lparr>client = [Connect], connected = True, tableNameMap = Map.empty\<rparr>)
   \<and> connectIfNeeded (catalog_driver example_catalog)
       \<lparr>client = [Connect], connected = True, tableNameMap = Map.empty\<rparr> =
     (Inr (), \<lparr>client = [Connect], connected = True, tableNameMap = Map.empty\<rparr>)
   \<and> close (catalog_driver example_catalog)
       \<lparr>client = [Connect], connected = True, tableNameMap = Map.empty\<rparr> =
     (Inr (), \<lparr>client = [Connect, End], connected = False, tableNameMap = Map.empty\<rparr>)
   \<and> execute (catalog_driver example_catalog)
       \<lparr>client = [Connect, End], connected = False, tableNameMap = Map.empty\<rparr>
       [(''operation'', JStr ''select''), (''table'', JStr ''Users'')] =
     (Inl (DriverError ''Client has already been connected. You cannot reuse a client.''),
      \<lparr>client = [Connect, End, Connect], connected = False, tableNameMap = Map.empty\<rparr>)
   \<and> introspect (catalog_driver example_catalog)
       \<lparr>client = [Connect, End], connected = False, tableNameMap = Map.empty\<rparr> =
     (Inl (DriverError ''Client has already been connected. You cannot reuse a client.''),
      \<lparr>client = [Connect, End, Connect], connected = False, tableNameMap = Map.empty\<rparr>)"
  by (simp add: execute_def introspect_def close_def eval_simps)

section \<open>Properties of the table name\<close>

text \<open>
  A lowercased name holds no capital letter, so of all the names \<^verbatim>\<open>Object.prototype\<close>
  defines only \<open>constructor\<close> and \<open>__proto__\<close> can be the key of a lookup in
  \<open>tableNameMap\<close>.
\<close>

lemma toLowerCase_char_lower:
  "toLowerCase_char c \<notin> set ''ABCDEFGHIJKLMNOPQRSTUVWXYZ''"
  by (simp add: toLowerCase_char_def)

lemma inherited_lowercase:
  "map_of object_prototype (map toLowerCase_char t) =
     (if map toLowerCase_char t = ''constructor'' then Some ''Object'' else None)"
proof -
  have up: "c \<notin> set (map toLowerCase_char t)" if "c \<in> set ''ABCDEFGHIJKLMNOPQRSTUVWXYZ''" for c
    using that toLowerCase_char_lower by auto
  have "map toLowerCase_char t \<noteq> s"
    if "s \<in> {''hasOwnProperty'', ''isPrototypeOf'', ''propertyIsEnumerable'', ''toLocaleString'',
              ''toString'', ''valueOf'', ''__defineGetter__'', ''__defineSetter__'',
              ''__lookupGetter__'', ''__lookupSetter__''}" for s
  proof
    assume eq: "map toLowerCase_char t = s"
    from that have "\<exists>c \<in> set ''ABCDEFGHIJKLMNOPQRSTUVWXYZ''. c \<in> set s"
      by auto
    with up eq show False by blast
  qed
  then show ?thesis
    by (simp add: object_prototype_def)
qed

text \<open>What \<open>getActualTableName\<close> returns for every requested string.\<close>

lemma getActualTableName_string:
  "getActualTableName a (JStr t) =
     Inr (case tableNameMap a (map toLowerCase_char t) of
            Some v \<Rightarrow> if truthy v then v else JStr t
          | None \<Rightarrow>
              if map toLowerCase_char t = ''constructor'' then JFunction ''Object''
              else if map toLowerCase_char t = ''__proto__'' then JObj []
              else JStr t)"
proof -
  let ?key = "map toLowerCase_char t"
  have inherited: "get_property (tableNameMap a) ?key =
      (if ?key = ''constructor'' then JFunction ''Object''
       else if ?key = ''__proto__'' then JObj []
       else JUndefined)"
    if "tableNameMap a ?key = None"
    unfolding get_property_def inherited_lowercase using that by simp
  show ?thesis
  proof (cases "tableNameMap a ?key")
    case None
    show ?thesis
      unfolding getActualTableName_def toLowerCase.simps sum.case Let_def inherited [OF None]
      using None by simp
  next
    case (Some v)
    then show ?thesis
      by (simp add: getActualTableName_def get_property_def)
  qed
qed

text \<open>
  A requested name whose lowercase form has an entry gets the stored name; one without
  an entry is passed through, unless its lowercase form is \<open>constructor\<close> or
  \<open>__proto__\<close>.
\<close>

lemma getActualTableName_stored:
  assumes "tableNameMap a (map toLowerCase_char t) = Some (JStr stored)" and "stored \<noteq> []"
  shows "getActualTableName a (JStr t) = Inr (JStr stored)"
  using assms by (simp add: getActualTableName_string)

lemma getActualTableName_passed_through:
  assumes "tableNameMap a (map toLowerCase_char t) = None"
    and "map toLowerCase_char t \<noteq> ''constructor''"
    and "map toLowerCase_char t \<noteq> ''__proto__''"
  shows "getActualTableName a (JStr t) = Inr (JStr t)"
  using assms by (simp add: getActualTableName_string)

text \<open>
  C1. The claim fails for a requested table \<open>constructor\<close> that has no entry in the map:
  the lookup \<^verbatim>\<open>this.tableNameMap["constructor"]\<close> finds the function \<^verbatim>\<open>Object\<close> that
  every object literal inherits, it is truthy, and the identifier in the statement is
  the text of that function, not the requested name.
\<close>

theorem execute_table_named_constructor:
  "tableNameMap new_agent (map toLowerCase_char ''constructor'') = None
   \<and> execute (catalog_driver example_catalog) new_agent
       [(''operation'', JStr ''select''), (''table'', JStr ''constructor'')] =
     (Inr \<lparr>rows = [],
            rawQuery = ''SELECT * FROM \"function Object() { [native code] }\" WHERE TRUE'',
            queryType = ''sql''\<rparr>,
      \<lparr>client = [Connect,
          Query ''SELECT * FROM \"function Object() { [native code] }\" WHERE TRUE'' None],
       connected = True, tableNameMap = Map.empty\<rparr>)"
  by (simp add: execute_def query_and_return_def eval_simps)

section \<open>Properties of introspect\<close>

text \<open>
  C8. The claim fails when another schema has a table of the same name: the columns
  query selects on \<^verbatim>\<open>table_name\<close> alone, so on the example database the fields of
  \<open>Users\<close> hold \<open>secret\<close>, a column of \<open>audit.Users\<close> and not of \<open>public.Users\<close>.
\<close>

theorem introspect_other_schema_columns:
  "\<exists>schema a entry.
     introspect (catalog_driver example_catalog) new_agent = (Inr schema, a)
     \<and> dom schema = {''Users''}
     \<and> schema ''Users'' = Some entry
     \<and> dom (fields_of entry) = {''id'', ''secret''}
     \<and> fields_of entry ''secret'' = Some \<lparr>type = JStr ''text''\<rparr>
     \<and> (''public'', ''Users'', ''secret'', ''text'') \<notin> set (columns example_catalog)"
  by (simp add: introspect_def reduce_columns_def set_property_def eval_simps insert_commute)

end
